theory Spec2Isabelle
  imports Complex_Main
begin

section \<open>The Lyapunov trajectory-tracking controller (lyapunovController.cpp)\<close>

text \<open>
  The controller of \<^verbatim>\<open>lyapunovController.cpp\<close> as HOL functions over an explicit
  controller state. Conventions of the embedding:
  \<^item> a \<^verbatim>\<open>double\<close> is a \<^typ>\<open>real\<close>: arithmetic is exact, rounding error, infinities and
    NaN are outside the model;
  \<^item> an \<^verbatim>\<open>int\<close> is an \<^typ>\<open>int\<close> kept within 32 bits: the conversion of the rounded
    quotient to \<^verbatim>\<open>int\<close> is written out in \<open>double_to_int\<close>; the number of stored samples is
    taken to fit an \<^verbatim>\<open>int\<close>;
  \<^item> \<^verbatim>\<open>Eigen::Vector2d\<close> and \<^verbatim>\<open>Eigen::Vector3d\<close> are pairs and triples of reals;
  \<^item> \<^verbatim>\<open>std::vector\<close> is a list, \<^verbatim>\<open>push_back\<close> appends at the end, \<^verbatim>\<open>at\<close> checks its
    index and throws;
  \<^item> a member function takes the object and returns the updated object; a function that
    can throw returns an \<open>outcome\<close> beside the object, since the object (and a
    reference argument such as \<^verbatim>\<open>u_out\<close>) keeps what was written before the throw;
  \<^item> the message written to \<^verbatim>\<open>std::cout\<close> is not part of the state.
\<close>

subsection \<open>Data\<close>

type_synonym Vector2d = "real \<times> real"
type_synonym Vector3d = "real \<times> real \<times> real"

text \<open>
  What a call can throw: the enum value \<^verbatim>\<open>DESIRED_TRAJECTORY_INCOMPLETE\<close> of the source,
  and \<^verbatim>\<open>std::out_of_range\<close> of \<^verbatim>\<open>std::vector::at\<close>.
\<close>

datatype error = DESIRED_TRAJECTORY_INCOMPLETE | OUT_OF_RANGE

datatype outcome = Returned | Thrown error

text \<open>
  Modelled from the spec: class \<^verbatim>\<open>UnicycleModel\<close> (the KinematicModel collaborator) is
  declared outside the source file. It holds a pose, a control input and a fixed step
  time; \<open>resetState\<close>, \<open>setControlInput\<close>, \<open>getState\<close> and \<open>getStepTime\<close> are the
  accessors of section 4.4. Its one-step integrator is not modelled: every function that
  integrates takes it as the parameter \<open>integrate\<close>.
\<close>

record UnicycleModel =
  model_state :: Vector3d
  model_input :: Vector2d
  model_dt :: real

definition UnicycleModel_ctor :: "Vector3d \<Rightarrow> Vector2d \<Rightarrow> real \<Rightarrow> UnicycleModel" where
  "UnicycleModel_ctor pose u dt = \<lparr>model_state = pose, model_input = u, model_dt = dt\<rparr>"

definition resetState :: "UnicycleModel \<Rightarrow> Vector3d \<Rightarrow> UnicycleModel" where
  "resetState m pose = m\<lparr>model_state := pose\<rparr>"

definition setControlInput :: "UnicycleModel \<Rightarrow> Vector2d \<Rightarrow> UnicycleModel" where
  "setControlInput m u = m\<lparr>model_input := u\<rparr>"

definition getState :: "UnicycleModel \<Rightarrow> Vector3d" where
  "getState m = model_state m"

definition getStepTime :: "UnicycleModel \<Rightarrow> real" where
  "getStepTime m = model_dt m"

record LyapController =
  Kp :: real
  Ktheta :: real
  current_time :: real
  time_end :: real
  e_x :: real
  e_y :: real
  e_theta :: real
  finished :: bool
  u_desired :: "Vector2d list"
  pose_desired :: "Vector3d list"
  pose_offset :: Vector3d
  RobotModel :: UnicycleModel

subsection \<open>Library functions\<close>

text \<open>
  \<^verbatim>\<open>round\<close> of \<^verbatim>\<open>cmath\<close> rounds halfway cases away from zero (HOL's \<^const>\<open>round\<close> rounds
  them up). Its value is a whole number, given here as an integer of any size.
\<close>

definition cmath_round :: "real \<Rightarrow> int" where
  "cmath_round x = (if 0 \<le> x then \<lfloor>x + 1 / 2\<rfloor> else - \<lfloor>- x + 1 / 2\<rfloor>)"

text \<open>
  The conversion of a whole-valued \<^verbatim>\<open>double\<close> to the 32-bit \<^verbatim>\<open>int\<close>. A value within
  \<open>[INT_MIN, INT_MAX]\<close> is kept. For a value outside, C++ leaves the conversion undefined;
  the model takes what the conversion instruction of x86-64 delivers, \<open>INT_MIN\<close>.
\<close>

definition INT_MIN :: int where
  "INT_MIN = - 2147483648"

definition INT_MAX :: int where
  "INT_MAX = 2147483647"

definition double_to_int :: "int \<Rightarrow> int" where
  "double_to_int z = (if INT_MIN \<le> z \<and> z \<le> INT_MAX then z else INT_MIN)"

text \<open>\<^verbatim>\<open>atan2(y, x)\<close>: the angle of the point \<open>(x, y)\<close> in \<open>(-\<pi>, \<pi>]\<close>, and 0 at the origin.\<close>

definition atan2 :: "real \<Rightarrow> real \<Rightarrow> real" where
  "atan2 y x =
     (if 0 < x then arctan (y / x)
      else if x < 0 then (if 0 \<le> y then arctan (y / x) + pi else arctan (y / x) - pi)
      else if 0 < y then pi / 2
      else if y < 0 then - (pi / 2)
      else 0)"

text \<open>\<^verbatim>\<open>std::vector::at\<close>: the \<^verbatim>\<open>int\<close> index is converted to the unsigned \<^verbatim>\<open>size_type\<close>, so a
  negative index is out of range like one past the end.\<close>

definition vector_at :: "'a list \<Rightarrow> int \<Rightarrow> error + 'a" where
  "vector_at xs i = (if 0 \<le> i \<and> i < int (length xs) then Inr (xs ! nat i) else Inl OUT_OF_RANGE)"

subsection \<open>Helpers declared outside the source file\<close>

text \<open>
  Modelled from the spec: \<^verbatim>\<open>angleWithinPI\<close> (the spec's \<open>wrapToPI\<close>) is defined outside
  the source file. The spec: it maps any angle to \<open>(-\<pi>, \<pi>]\<close>, and \<open>wrapToPI(6.0) = 6.0 - 2\<pi>\<close>;
  the angle is moved by the whole number of turns that brings it into that interval.
\<close>

definition angleWithinPI :: "real \<Rightarrow> real" where
  "angleWithinPI a = a - 2 * pi * of_int \<lceil>(a - pi) / (2 * pi)\<rceil>"

text \<open>
  Modelled from the spec: \<^verbatim>\<open>sinc\<close> is defined outside the source file. The spec:
  \<open>sinc(z) = sin(z)/z\<close> for \<open>z \<noteq> 0\<close> and \<open>sinc(0) = 1\<close>.
\<close>

definition sinc :: "real \<Rightarrow> real" where
  "sinc z = (if z = 0 then 1 else sin z / z)"

subsection \<open>Construction\<close>

text \<open>
  The constructor assigns every member but \<^verbatim>\<open>pose_offset\<close>, whose initial content is
  therefore a parameter here; the two sequences are default-constructed, hence empty.
\<close>

definition LyapController_ctor :: "real \<Rightarrow> real \<Rightarrow> real \<Rightarrow> Vector3d \<Rightarrow> LyapController" where
  "LyapController_ctor kp ktheta dt offset0 =
     \<lparr>Kp = kp, Ktheta = ktheta, current_time = 0, time_end = 0,
      e_x = 0, e_y = 0, e_theta = 0, finished = True,
      u_desired = [], pose_desired = [], pose_offset = offset0,
      RobotModel = UnicycleModel_ctor (0, 0, 0) (0, 0) dt\<rparr>"

subsection \<open>Trajectory store and lookup\<close>

definition addStateDesired :: "LyapController \<Rightarrow> Vector3d \<Rightarrow> LyapController" where
  "addStateDesired s pose_des = s\<lparr>pose_desired := pose_desired s @ [pose_des]\<rparr>"

definition addToInputDesired :: "LyapController \<Rightarrow> real \<Rightarrow> real \<Rightarrow> LyapController" where
  "addToInputDesired s v omega = s\<lparr>u_desired := u_desired s @ [(v, omega)]\<rparr>"

definition computeMaxTime :: "LyapController \<Rightarrow> real" where
  "computeMaxTime s = getStepTime (RobotModel s) * real (length (pose_desired s))"

text \<open>
  The quotient by a zero step time is an infinity or NaN, which the conversion to \<^verbatim>\<open>int\<close>
  takes to \<open>INT_MIN\<close> like any value that does not fit. The index is bounded from above
  only, by the number of poses.
\<close>

definition getIndexIntegerBasedOnTime :: "LyapController \<Rightarrow> real \<Rightarrow> int" where
  "getIndexIntegerBasedOnTime s t =
     (let n_max = int (length (pose_desired s));
          dt = getStepTime (RobotModel s);
          index = (if dt = 0 then INT_MIN else double_to_int (cmath_round (t / dt)))
      in if n_max \<le> index then n_max - 1 else index)"

definition getControlInputDesiredOnTime :: "LyapController \<Rightarrow> real \<Rightarrow> error + Vector2d" where
  "getControlInputDesiredOnTime s t = vector_at (u_desired s) (getIndexIntegerBasedOnTime s t)"

definition getPoseDesiredOnTime :: "LyapController \<Rightarrow> real \<Rightarrow> error + Vector3d" where
  "getPoseDesiredOnTime s t = vector_at (pose_desired s) (getIndexIntegerBasedOnTime s t)"

subsection \<open>Control law\<close>

definition updateTrackingErrors :: "LyapController \<Rightarrow> Vector3d \<Rightarrow> Vector3d \<Rightarrow> LyapController" where
  "updateTrackingErrors s pose_ref pose =
     (case pose_ref of (x_ref, y_ref, theta_ref) \<Rightarrow>
      case pose of (x, y, theta) \<Rightarrow>
        s\<lparr>e_x := x - x_ref, e_y := y - y_ref, e_theta := angleWithinPI (theta - theta_ref)\<rparr>)"

text \<open>
  \<open>computeLaw s pose u_out\<close> returns the outcome, the content of the reference argument
  \<^verbatim>\<open>u_out\<close> after the call and the controller after the call. The two tests come in the
  order of the source; an exception of a lookup leaves \<^verbatim>\<open>u_out\<close> as the caller passed it.
\<close>

definition computeLaw ::
    "LyapController \<Rightarrow> Vector3d \<Rightarrow> Vector2d \<Rightarrow> outcome \<times> Vector2d \<times> LyapController" where
  "computeLaw s pose u_out =
     (if u_desired s = [] \<or> pose_desired s = [] then
        (Thrown DESIRED_TRAJECTORY_INCOMPLETE, (0, 0), s)
      else if finished s then (Returned, (0, 0), s)
      else
        (case getControlInputDesiredOnTime s (current_time s) of
           Inl e \<Rightarrow> (Thrown e, u_out, s)
         | Inr u_ref \<Rightarrow>
             (case getPoseDesiredOnTime s (current_time s) of
                Inl e \<Rightarrow> (Thrown e, u_out, s)
              | Inr pose_ref \<Rightarrow>
                  (let s' = updateTrackingErrors s pose_ref pose;
                       theta = snd (snd pose);
                       alpha = theta + snd (snd pose_ref);
                       psi = atan2 (e_y s') (e_x s');
                       v_ref = fst u_ref;
                       e_xy = sqrt ((e_x s')\<^sup>2 + (e_y s')\<^sup>2);
                       du0 = - Kp s' * e_xy * cos (theta - psi);
                       du1 = - Ktheta s' * e_theta s'
                             - v_ref * sinc (e_theta s' * 0.5) * sin (psi - alpha * 0.5)
                   in (Returned, (fst u_ref + du0, snd u_ref + du1), s')))))"

definition endReached :: "LyapController \<Rightarrow> bool \<times> LyapController" where
  "endReached s =
     (let s' = (if computeMaxTime s \<le> current_time s then s\<lparr>finished := True\<rparr> else s)
      in (finished s', s'))"

text \<open>An exception of \<open>computeLaw\<close> leaves \<open>step\<close> before \<open>endReached\<close> is called.\<close>

definition step ::
    "LyapController \<Rightarrow> Vector3d \<Rightarrow> Vector2d \<Rightarrow> outcome \<times> Vector2d \<times> LyapController" where
  "step s pose vel_out =
     (case computeLaw s pose vel_out of
        (Thrown e, u, s') \<Rightarrow> (Thrown e, u, s')
      | (Returned, u, s') \<Rightarrow> (Returned, u, snd (endReached s')))"

text \<open>A caller that calls \<open>step\<close> again and again, whatever each call's outcome was; each
  call has its pose and its output argument.\<close>

fun step_calls :: "LyapController \<Rightarrow> (Vector3d \<times> Vector2d) list \<Rightarrow> LyapController" where
  "step_calls s [] = s"
| "step_calls s ((pose, vel_out) # calls) = step_calls (snd (snd (step s pose vel_out))) calls"

subsection \<open>Loading a trajectory\<close>

text \<open>The roto-translation of one sample by the offset pose, as in the second loop of
  \<open>copyTrajectory\<close>.\<close>

definition pose_with_offset :: "Vector3d \<Rightarrow> real \<Rightarrow> real \<Rightarrow> real \<Rightarrow> Vector3d" where
  "pose_with_offset offset xi yi thetai =
     (case offset of (x0, y0, theta_offset) \<Rightarrow>
        (x0 + (cos theta_offset * xi - sin theta_offset * yi),
         y0 + (sin theta_offset * xi + cos theta_offset * yi),
         theta_offset + thetai))"

text \<open>
  The first loop runs over the indices of \<open>v\<close> and reads \<open>omega\<close> at the same index, the
  second runs over the indices of \<open>x\<close> and reads \<open>y\<close> and \<open>theta\<close>: a shorter companion
  array makes \<^verbatim>\<open>at\<close> throw, and the samples appended so far stay in the store.
\<close>

fun copyInputs :: "real list \<Rightarrow> real list \<Rightarrow> LyapController \<Rightarrow> outcome \<times> LyapController" where
  "copyInputs [] omega s = (Returned, s)"
| "copyInputs (vi # v) [] s = (Thrown OUT_OF_RANGE, s)"
| "copyInputs (vi # v) (wi # omega) s = copyInputs v omega (addToInputDesired s vi wi)"

fun copyPoses ::
    "real list \<Rightarrow> real list \<Rightarrow> real list \<Rightarrow> LyapController \<Rightarrow> outcome \<times> LyapController" where
  "copyPoses [] y theta s = (Returned, s)"
| "copyPoses (xi # x) (yi # y) (ti # theta) s =
     copyPoses x y theta (addStateDesired s (pose_with_offset (pose_offset s) xi yi ti))"
| "copyPoses (xi # x) y theta s = (Thrown OUT_OF_RANGE, s)"

definition copyTrajectory ::
    "LyapController \<Rightarrow> real list \<Rightarrow> real list \<Rightarrow> real list \<Rightarrow> real list \<Rightarrow> real list
       \<Rightarrow> outcome \<times> LyapController" where
  "copyTrajectory s v omega x y theta =
     (case copyInputs v omega s of
        (Thrown e, s1) \<Rightarrow> (Thrown e, s1)
      | (Returned, s1) \<Rightarrow>
          (case copyPoses x y theta s1 of
             (Thrown e, s2) \<Rightarrow> (Thrown e, s2)
           | (Returned, s2) \<Rightarrow>
               (Returned, s2\<lparr>time_end := computeMaxTime s2, finished := False\<rparr>)))"

definition integrateState ::
    "(UnicycleModel \<Rightarrow> UnicycleModel) \<Rightarrow> LyapController \<Rightarrow> Vector2d \<Rightarrow> Vector3d \<times> LyapController" where
  "integrateState integrate s u =
     (let m = integrate (setControlInput (RobotModel s) u)
      in (getState m, s\<lparr>RobotModel := m\<rparr>))"

fun generateLoop ::
    "(UnicycleModel \<Rightarrow> UnicycleModel) \<Rightarrow> Vector2d list \<Rightarrow> LyapController \<Rightarrow> LyapController" where
  "generateLoop integrate [] s = s"
| "generateLoop integrate (u # us) s =
     (case integrateState integrate s u of
        (pose_next, s1) \<Rightarrow> generateLoop integrate us (addStateDesired s1 pose_next))"

definition generateTrajectory ::
    "(UnicycleModel \<Rightarrow> UnicycleModel) \<Rightarrow> LyapController \<Rightarrow> LyapController" where
  "generateTrajectory integrate s =
     (let s0 = s\<lparr>RobotModel := resetState (RobotModel s) (pose_offset s)\<rparr>;
          s1 = generateLoop integrate (u_desired s0) s0
      in s1\<lparr>time_end := computeMaxTime s1, finished := False\<rparr>)"

text \<open>
  The inverse roto-translation of the spec's round-trip property (section 8, item 3): it
  is not in the source and is used only to state that property.
\<close>

definition inverse_pose_with_offset :: "Vector3d \<Rightarrow> Vector3d \<Rightarrow> Vector3d" where
  "inverse_pose_with_offset offset p =
     (case offset of (x0, y0, theta_offset) \<Rightarrow>
      case p of (x', y', theta') \<Rightarrow>
        (cos theta_offset * (x' - x0) + sin theta_offset * (y' - y0),
         - sin theta_offset * (x' - x0) + cos theta_offset * (y' - y0),
         theta' - theta_offset))"

text \<open>
  The poses that the loop of \<open>generateTrajectory\<close> collects, written as a function of
  the model and the inputs alone: each input is set, the model integrated, its state read.
  It is used only to state what \<open>generateTrajectory\<close> appends.
\<close>

fun model_poses ::
    "(UnicycleModel \<Rightarrow> UnicycleModel) \<Rightarrow> UnicycleModel \<Rightarrow> Vector2d list \<Rightarrow> Vector3d list" where
  "model_poses integrate m [] = []"
| "model_poses integrate m (u # us) =
     getState (integrate (setControlInput m u)) #
       model_poses integrate (integrate (setControlInput m u)) us"

subsection \<open>Reading a call's result\<close>

definition outcome_of :: "outcome \<times> Vector2d \<times> LyapController \<Rightarrow> outcome" where
  "outcome_of r = fst r"

definition state_of :: "outcome \<times> Vector2d \<times> LyapController \<Rightarrow> LyapController" where
  "state_of r = snd (snd r)"

subsection \<open>Two loaded controllers\<close>

text \<open>
  Concrete controllers for evaluating the functions above: constructed with \<open>Kp = 2\<close>,
  \<open>Ktheta = 3\<close>, \<open>dt = 1\<close> and a zero offset pose, then loaded by \<open>copyTrajectory\<close>. The
  first holds two inputs and two poses, the second one input and two poses.
\<close>

definition loaded_example :: LyapController where
  "loaded_example =
     snd (copyTrajectory (LyapController_ctor 2 3 1 (0, 0, 0)) [1, 1] [0, 0] [0, 1] [0, 0] [0, 0])"

definition short_inputs_example :: LyapController where
  "short_inputs_example =
     snd (copyTrajectory (LyapController_ctor 2 3 1 (0, 0, 0)) [1] [0] [0, 1] [0, 0] [0, 0])"

text \<open>An integrator to run \<open>generateTrajectory\<close> with: it moves the model along the
  x axis by \<open>v \<cdot> dt\<close> and leaves \<open>y\<close> and the heading.\<close>

definition along_x :: "UnicycleModel \<Rightarrow> UnicycleModel" where
  "along_x m =
     m\<lparr>model_state :=
         (fst (model_state m) + fst (model_input m) * model_dt m,
          fst (snd (model_state m)), snd (snd (model_state m)))\<rparr>"

section \<open>Properties\<close>

subsection \<open>Auxiliary facts\<close>

lemma updateTrackingErrors_eq:
  "updateTrackingErrors s pose_ref pose =
     s\<lparr>e_x := fst pose - fst pose_ref, e_y := fst (snd pose) - fst (snd pose_ref),
       e_theta := angleWithinPI (snd (snd pose) - snd (snd pose_ref))\<rparr>"
  by (cases pose_ref; cases pose) (simp add: updateTrackingErrors_def)

lemma computeLaw_state:
  "state_of (computeLaw s pose u_out) =
     s\<lparr>e_x := e_x (state_of (computeLaw s pose u_out)),
       e_y := e_y (state_of (computeLaw s pose u_out)),
       e_theta := e_theta (state_of (computeLaw s pose u_out))\<rparr>"
  by (simp add: computeLaw_def state_of_def updateTrackingErrors_eq Let_def split: sum.splits)

lemma computeLaw_Thrown:
  "outcome_of (computeLaw s pose u_out) = Thrown e \<Longrightarrow> state_of (computeLaw s pose u_out) = s"
  by (auto simp add: computeLaw_def state_of_def outcome_of_def Let_def split: sum.splits if_splits)

lemma angleWithinPI_range: "- pi < angleWithinPI a \<and> angleWithinPI a \<le> pi"
proof -
  let ?q = "(a - pi) / (2 * pi)"
  have c: "of_int \<lceil>?q\<rceil> - 1 < ?q \<and> ?q \<le> of_int \<lceil>?q\<rceil>" by (rule ceiling_correct)
  have p: "0 < 2 * pi" by simp
  from c have "of_int \<lceil>?q\<rceil> - 1 < ?q" by simp
  then have "(of_int \<lceil>?q\<rceil> - 1) * (2 * pi) < a - pi" 
    using p by (simp only: pos_less_divide_eq)
  moreover from c have "?q \<le> of_int \<lceil>?q\<rceil>" by simp
  then have "a - pi \<le> of_int \<lceil>?q\<rceil> * (2 * pi)"
    using p by (simp only: pos_divide_le_eq)
  ultimately show ?thesis
    unfolding angleWithinPI_def by (simp add: algebra_simps)
qed

lemma angleWithinPI_6: "angleWithinPI 6 = 6 - 2 * pi"
proof -
  have "\<lceil>(6 - pi) / (2 * pi)\<rceil> = 1"
  proof (rule ceiling_unique)
    show "of_int 1 - 1 < (6 - pi) / (2 * pi)" using pi_less_4 by simp
    show "(6 - pi) / (2 * pi) \<le> of_int 1" using pi_ge_two by (simp add: pos_divide_le_eq)
  qed
  then show ?thesis by (simp add: angleWithinPI_def)
qed


lemma step_state:
  "state_of (step s pose u_out) =
     (if outcome_of (computeLaw s pose u_out) = Returned
      then snd (endReached (state_of (computeLaw s pose u_out)))
      else state_of (computeLaw s pose u_out))"
  by (cases "computeLaw s pose u_out"; cases "fst (computeLaw s pose u_out)")
     (simp_all add: step_def state_of_def outcome_of_def)

lemma step_outcome: "outcome_of (step s pose u_out) = outcome_of (computeLaw s pose u_out)"
  by (cases "computeLaw s pose u_out"; cases "fst (computeLaw s pose u_out)")
     (simp_all add: step_def outcome_of_def)

lemma endReached_state:
  "snd (endReached s) = s\<lparr>finished := finished s \<or> computeMaxTime s \<le> current_time s\<rparr>"
  by (simp add: endReached_def Let_def)

lemma copyInputs_zip:
  "copyInputs v omega s =
     (if length v \<le> length omega then Returned else Thrown OUT_OF_RANGE,
      s\<lparr>u_desired := u_desired s @ zip v omega\<rparr>)"
  by (induction v omega s rule: copyInputs.induct) (simp_all add: addToInputDesired_def)

lemma copyPoses_zip:
  "copyPoses x y theta s =
     (if length x \<le> length y \<and> length x \<le> length theta then Returned else Thrown OUT_OF_RANGE,
      s\<lparr>pose_desired := pose_desired s @
           map (\<lambda>(xi, yi, ti). pose_with_offset (pose_offset s) xi yi ti) (zip x (zip y theta))\<rparr>)"
  by (induction x y theta s rule: copyPoses.induct) (simp_all add: addStateDesired_def)

lemma copyTrajectory_eq:
  "copyTrajectory s v omega x y theta =
     (if length omega < length v then
        (Thrown OUT_OF_RANGE, s\<lparr>u_desired := u_desired s @ zip v omega\<rparr>)
      else if length y < length x \<or> length theta < length x then
        (Thrown OUT_OF_RANGE,
         s\<lparr>u_desired := u_desired s @ zip v omega,
           pose_desired := pose_desired s @
             map (\<lambda>(xi, yi, ti). pose_with_offset (pose_offset s) xi yi ti) (zip x (zip y theta))\<rparr>)
      else
        (Returned,
         s\<lparr>u_desired := u_desired s @ zip v omega,
           pose_desired := pose_desired s @
             map (\<lambda>(xi, yi, ti). pose_with_offset (pose_offset s) xi yi ti) (zip x (zip y theta)),
           time_end := getStepTime (RobotModel s) * real (length (pose_desired s) + length x),
           finished := False\<rparr>))"
  by (auto simp add: copyTrajectory_def copyInputs_zip copyPoses_zip computeMaxTime_def min_def)

lemma generateLoop_props:
  "u_desired (generateLoop integrate us s) = u_desired s \<and>
   (\<exists>ps. pose_desired (generateLoop integrate us s) = pose_desired s @ ps \<and> length ps = length us) \<and>
   Kp (generateLoop integrate us s) = Kp s \<and>
   Ktheta (generateLoop integrate us s) = Ktheta s \<and>
   current_time (generateLoop integrate us s) = current_time s"
proof (induction us arbitrary: s)
  case Nil
  then show ?case by simp
next
  case (Cons u us)
  let ?s1 = "addStateDesired (snd (integrateState integrate s u)) (fst (integrateState integrate s u))"
  have step: "generateLoop integrate (u # us) s = generateLoop integrate us ?s1"
    by (simp add: case_prod_beta)
  have s1: "u_desired ?s1 = u_desired s" "Kp ?s1 = Kp s" "Ktheta ?s1 = Ktheta s"
    "current_time ?s1 = current_time s"
    "pose_desired ?s1 = pose_desired s @ [fst (integrateState integrate s u)]"
    by (simp_all add: addStateDesired_def integrateState_def Let_def)
  from Cons.IH [of ?s1] obtain ps where
    ps: "pose_desired (generateLoop integrate us ?s1) = pose_desired ?s1 @ ps" "length ps = length us"
    by blast
  have "pose_desired (generateLoop integrate us ?s1) =
          pose_desired s @ (fst (integrateState integrate s u) # ps)"
    using ps s1 by simp
  moreover have "length (fst (integrateState integrate s u) # ps) = length (u # us)"
    using ps by simp
  ultimately have "\<exists>qs. pose_desired (generateLoop integrate us ?s1) = pose_desired s @ qs \<and>
      length qs = length (u # us)" by blast
  then show ?case using Cons.IH [of ?s1] s1 unfolding step by simp
qed

lemma generateLoop_poses:
  "pose_desired (generateLoop integrate us s) =
     pose_desired s @ model_poses integrate (RobotModel s) us"
proof (induction us arbitrary: s)
  case Nil
  then show ?case by simp
next
  case (Cons u us)
  let ?m = "integrate (setControlInput (RobotModel s) u)"
  let ?s1 = "addStateDesired (s\<lparr>RobotModel := ?m\<rparr>) (getState ?m)"
  have "generateLoop integrate (u # us) s = generateLoop integrate us ?s1"
    by (simp add: integrateState_def Let_def)
  moreover have "pose_desired ?s1 = pose_desired s @ [getState ?m]" "RobotModel ?s1 = ?m"
    by (simp_all add: addStateDesired_def)
  ultimately show ?case using Cons.IH [of ?s1] by simp
qed

lemma generateTrajectory_poses:
  "pose_desired (generateTrajectory integrate s) =
     pose_desired s @
       model_poses integrate (resetState (RobotModel s) (pose_offset s)) (u_desired s)"
  by (simp add: generateTrajectory_def Let_def generateLoop_poses)

lemma inverse_pose_with_offset_cancel:
  "inverse_pose_with_offset offset (pose_with_offset offset x y th) = (x, y, th)"
proof -
  obtain x0 y0 t0 where o: "offset = (x0, y0, t0)" by (cases offset) auto
  have a: "cos t0 * (cos t0 * x - sin t0 * y) + sin t0 * (sin t0 * x + cos t0 * y)
         = x"
    using sin_cos_squared_add [of t0] by algebra
  have b: "- sin t0 * (cos t0 * x - sin t0 * y) + cos t0 * (sin t0 * x + cos t0 * y)
         = y"
    using sin_cos_squared_add [of t0] by algebra
  show ?thesis
    using a b by (simp add: o inverse_pose_with_offset_def pose_with_offset_def)
qed

lemma generateTrajectory_props:
  "u_desired (generateTrajectory integrate s) = u_desired s \<and>
   (\<exists>ps. pose_desired (generateTrajectory integrate s) = pose_desired s @ ps \<and>
         length ps = length (u_desired s)) \<and>
   time_end (generateTrajectory integrate s) =
     getStepTime (RobotModel (generateTrajectory integrate s)) *
       real (length (pose_desired (generateTrajectory integrate s))) \<and>
   \<not> finished (generateTrajectory integrate s)"
  using generateLoop_props
    [of integrate "u_desired s" "s\<lparr>RobotModel := resetState (RobotModel s) (pose_offset s)\<rparr>"]
  by (simp add: generateTrajectory_def Let_def computeMaxTime_def)

lemma computeLaw_keeps:
  "finished (state_of (computeLaw s pose u_out)) = finished s"
  "current_time (state_of (computeLaw s pose u_out)) = current_time s"
  "pose_desired (state_of (computeLaw s pose u_out)) = pose_desired s"
  "u_desired (state_of (computeLaw s pose u_out)) = u_desired s"
  "RobotModel (state_of (computeLaw s pose u_out)) = RobotModel s"
  by (subst computeLaw_state, simp)+

lemma step_finished:
  "finished (state_of (step s pose u_out)) =
     (finished s \<or> outcome_of (step s pose u_out) = Returned \<and> computeMaxTime s \<le> current_time s)"
  by (simp add: step_state step_outcome endReached_state computeLaw_keeps computeMaxTime_def)

lemma step_Thrown:
  "outcome_of (step s pose u_out) \<noteq> Returned \<Longrightarrow> state_of (step s pose u_out) = s"
  by (cases "outcome_of (computeLaw s pose u_out)")
     (simp_all add: step_state step_outcome computeLaw_Thrown)

lemma step_calls_finished: "finished s \<Longrightarrow> finished (step_calls s calls)"
proof (induction calls arbitrary: s)
  case Nil
  then show ?case by simp
next
  case (Cons c calls)
  obtain pose vel_out where c: "c = (pose, vel_out)" by (cases c)
  have "finished (state_of (step s pose vel_out))"
    using Cons.prems by (simp add: step_finished)
  then have "finished (step_calls (state_of (step s pose vel_out)) calls)"
    by (rule Cons.IH)
  then show ?case by (simp add: c state_of_def)
qed

lemma loaded_example_eq:
  "loaded_example =
     \<lparr>Kp = 2, Ktheta = 3, current_time = 0, time_end = 2, e_x = 0, e_y = 0, e_theta = 0,
      finished = False, u_desired = [(1, 0), (1, 0)], pose_desired = [(0, 0, 0), (1, 0, 0)],
      pose_offset = (0, 0, 0),
      RobotModel = \<lparr>model_state = (0, 0, 0), model_input = (0, 0), model_dt = 1\<rparr>\<rparr>"
  by (simp add: loaded_example_def copyTrajectory_eq LyapController_ctor_def UnicycleModel_ctor_def
      pose_with_offset_def getStepTime_def)

lemma short_inputs_example_eq:
  "short_inputs_example =
     \<lparr>Kp = 2, Ktheta = 3, current_time = 0, time_end = 2, e_x = 0, e_y = 0, e_theta = 0,
      finished = False, u_desired = [(1, 0)], pose_desired = [(0, 0, 0), (1, 0, 0)],
      pose_offset = (0, 0, 0),
      RobotModel = \<lparr>model_state = (0, 0, 0), model_input = (0, 0), model_dt = 1\<rparr>\<rparr>"
  by (simp add: short_inputs_example_def copyTrajectory_eq LyapController_ctor_def
      UnicycleModel_ctor_def pose_with_offset_def getStepTime_def)

lemma cmath_round_nonneg: "0 \<le> x \<Longrightarrow> cmath_round x = round x"
  by (simp add: cmath_round_def round_def)

lemma cmath_round_of_nat: "cmath_round (real k) = int k"
proof -
  have "\<lfloor>real k + 1 / 2\<rfloor> = int k" by linarith
  then show ?thesis by (simp add: cmath_round_def)
qed

lemma cmath_round_minus_of_nat: "cmath_round (- real k) = - int k"
proof -
  have "\<lfloor>real k + 1 / 2\<rfloor> = int k" by linarith
  then show ?thesis by (cases "k = 0") (simp_all add: cmath_round_def)
qed

lemma double_to_int_small: "double_to_int 0 = 0" "double_to_int 1 = 1" "double_to_int 2 = 2"
  "double_to_int 5 = 5" "double_to_int 7 = 7" "double_to_int (- 1) = - 1"
  by (simp_all add: double_to_int_def INT_MIN_def INT_MAX_def)

lemma double_to_int_cases: "double_to_int z = z \<or> double_to_int z < 0"
  by (simp add: double_to_int_def INT_MIN_def)

lemma getIndexIntegerBasedOnTime_eq:
  "getStepTime (RobotModel s) \<noteq> 0 \<Longrightarrow>
   getIndexIntegerBasedOnTime s t =
     (if int (length (pose_desired s)) \<le> double_to_int (cmath_round (t / getStepTime (RobotModel s)))
      then int (length (pose_desired s)) - 1
      else double_to_int (cmath_round (t / getStepTime (RobotModel s))))"
  by (simp add: getIndexIntegerBasedOnTime_def Let_def)

lemma getIndexIntegerBasedOnTime_less:
  "getIndexIntegerBasedOnTime s t < int (length (pose_desired s))"
  by (simp add: getIndexIntegerBasedOnTime_def Let_def)

lemma computeLaw_outcome:
  "outcome_of (computeLaw s pose u_out) =
     (if u_desired s = [] \<or> pose_desired s = [] then Thrown DESIRED_TRAJECTORY_INCOMPLETE
      else if finished s then Returned
      else (case getControlInputDesiredOnTime s (current_time s) of
              Inl e \<Rightarrow> Thrown e
            | Inr u_ref \<Rightarrow>
                (case getPoseDesiredOnTime s (current_time s) of
                   Inl e \<Rightarrow> Thrown e
                 | Inr pose_ref \<Rightarrow> Returned)))"
  by (simp add: computeLaw_def outcome_of_def Let_def split: sum.splits)

lemma angleWithinPI_0: "angleWithinPI 0 = 0"
proof -
  have "\<lceil>(0 - pi) / (2 * pi)\<rceil> = 0"
    by (rule ceiling_unique) simp_all
  then show ?thesis by (simp add: angleWithinPI_def)
qed

lemma loaded_example_lookups:
  "getControlInputDesiredOnTime loaded_example 0 = Inr (1, 0)"
  "getPoseDesiredOnTime loaded_example 0 = Inr (0, 0, 0)"
  "getControlInputDesiredOnTime (loaded_example\<lparr>current_time := 2\<rparr>) 2 = Inr (1, 0)"
  "getPoseDesiredOnTime (loaded_example\<lparr>current_time := 2\<rparr>) 2 = Inr (1, 0, 0)"
proof -
  have r: "cmath_round 0 = 0" "cmath_round 2 = 2"
    using cmath_round_of_nat [of 0] cmath_round_of_nat [of 2] by simp_all
  show "getControlInputDesiredOnTime loaded_example 0 = Inr (1, 0)"
    "getPoseDesiredOnTime loaded_example 0 = Inr (0, 0, 0)"
    "getControlInputDesiredOnTime (loaded_example\<lparr>current_time := 2\<rparr>) 2 = Inr (1, 0)"
    "getPoseDesiredOnTime (loaded_example\<lparr>current_time := 2\<rparr>) 2 = Inr (1, 0, 0)"
    by (simp_all add: loaded_example_eq getControlInputDesiredOnTime_def getPoseDesiredOnTime_def
        getIndexIntegerBasedOnTime_def getStepTime_def vector_at_def r double_to_int_small)
qed

lemma atan2_0_1: "atan2 0 1 = 0"
  by (simp add: atan2_def)

lemma index_at_input_count:
  assumes "length (u_desired s) < length (pose_desired s)"
    and "0 < getStepTime (RobotModel s)" and "int (length (u_desired s)) \<le> INT_MAX"
  shows "getIndexIntegerBasedOnTime s
           (getStepTime (RobotModel s) * real (length (u_desired s))) = int (length (u_desired s))"
proof -
  let ?dt = "getStepTime (RobotModel s)"
  let ?k = "length (u_desired s)"
  have "?dt * real ?k / ?dt = real ?k" using assms(2) by simp
  then have "cmath_round (?dt * real ?k / ?dt) = int ?k"
    by (simp only: cmath_round_of_nat)
  moreover have "double_to_int (int ?k) = int ?k"
    using assms(3) by (simp add: double_to_int_def INT_MIN_def)
  ultimately show ?thesis
    using assms(1,2) by (simp add: getIndexIntegerBasedOnTime_eq)
qed

lemma index_outside_inputs:
  assumes "u_desired s \<noteq> []" and "length (u_desired s) < length (pose_desired s)"
  shows "getIndexIntegerBasedOnTime s
           (\<bar>getStepTime (RobotModel s)\<bar> * real (length (u_desired s))) < 0
       \<or> int (length (u_desired s)) \<le>
         getIndexIntegerBasedOnTime s
           (\<bar>getStepTime (RobotModel s)\<bar> * real (length (u_desired s)))"
proof -
  let ?dt = "getStepTime (RobotModel s)"
  let ?k = "length (u_desired s)"
  let ?n = "int (length (pose_desired s))"
  have k: "0 < ?k" using assms(1) by simp
  consider "?dt = 0" | "0 < ?dt" | "?dt < 0" by linarith
  then show ?thesis
  proof cases
    case 1
    then show ?thesis
      using k by (simp add: getIndexIntegerBasedOnTime_def Let_def INT_MIN_def)
  next
    case 2
    then have "\<bar>?dt\<bar> * real ?k / ?dt = real ?k" by simp
    then have r: "cmath_round (\<bar>?dt\<bar> * real ?k / ?dt) = int ?k"
      by (simp only: cmath_round_of_nat)
    from double_to_int_cases [of "int ?k"] show ?thesis
    proof
      assume "double_to_int (int ?k) = int ?k"
      then show ?thesis using 2 r assms(2) by (simp add: getIndexIntegerBasedOnTime_eq)
    next
      assume "double_to_int (int ?k) < 0"
      then show ?thesis using 2 r by (simp add: getIndexIntegerBasedOnTime_eq)
    qed
  next
    case 3
    then have "\<bar>?dt\<bar> * real ?k / ?dt = - real ?k" by simp
    then have r: "cmath_round (\<bar>?dt\<bar> * real ?k / ?dt) = - int ?k"
      by (simp only: cmath_round_minus_of_nat)
    have "double_to_int (- int ?k) < 0"
      using k by (simp add: double_to_int_def INT_MIN_def)
    then show ?thesis using 3 r by (simp add: getIndexIntegerBasedOnTime_eq)
  qed
qed

lemma sin_poly_lower: "(1 / 2 :: real) < sin (21 / 40)"
proof -
  have "\<bar>sin (21 / 40 :: real) - (\<Sum>m<5. sin_coeff m * (21 / 40) ^ m)\<bar>
          \<le> inverse (fact 5) * \<bar>21 / 40\<bar> ^ 5"
    by (rule Maclaurin_sin_bound)
  moreover have "{..<5::nat} = {0, 1, 2, 3, 4}" by auto
  then have "(\<Sum>m<5. sin_coeff m * (21 / 40 :: real) ^ m) = 21 / 40 - (21 / 40) ^ 3 / 6"
    by (simp add: sin_coeff_def fact_numeral)
  moreover have "inverse (fact 5) * \<bar>21 / 40 :: real\<bar> ^ 5 = (21 / 40) ^ 5 / 120"
    by (simp add: fact_numeral)
  moreover have "(1 / 2 :: real) < 21 / 40 - (21 / 40) ^ 3 / 6 - (21 / 40) ^ 5 / 120"
    by (simp add: power_divide)
  ultimately show ?thesis by linarith
qed

lemma sin_poly_upper: "sin (157 / 300 :: real) < 1 / 2"
proof -
  have "\<bar>sin (157 / 300 :: real) - (\<Sum>m<7. sin_coeff m * (157 / 300) ^ m)\<bar>
          \<le> inverse (fact 7) * \<bar>157 / 300\<bar> ^ 7"
    by (rule Maclaurin_sin_bound)
  moreover have "{..<7::nat} = {0, 1, 2, 3, 4, 5, 6}" by auto
  then have "(\<Sum>m<7. sin_coeff m * (157 / 300 :: real) ^ m) =
      157 / 300 - (157 / 300) ^ 3 / 6 + (157 / 300) ^ 5 / 120"
    by (simp add: sin_coeff_def fact_numeral)
  moreover have "inverse (fact 7) * \<bar>157 / 300 :: real\<bar> ^ 7 = (157 / 300) ^ 7 / 5040"
    by (simp add: fact_numeral)
  moreover have "157 / 300 - (157 / 300) ^ 3 / 6 + (157 / 300) ^ 5 / 120 + (157 / 300) ^ 7 / 5040
      < (1 / 2 :: real)"
    by (simp add: power_divide)
  ultimately show ?thesis by linarith
qed

lemma pi_bounds: "157 / 50 < pi \<and> pi < 63 / 20"
proof -
  have "pi < 63 / 20"
  proof (rule ccontr)
    assume "\<not> pi < 63 / 20"
    then have "(21 / 40 :: real) \<le> pi / 6" by simp
    moreover have "- (pi / 2) \<le> (21 / 40 :: real)" using pi_ge_zero by linarith
    moreover have "pi / 6 \<le> pi / 2" by simp
    ultimately have "sin (21 / 40 :: real) \<le> sin (pi / 6)"
      by (simp add: sin_mono_le_eq)
    then show False using sin_poly_lower by (simp add: sin_30)
  qed
  moreover have "157 / 50 < pi"
  proof (rule ccontr)
    assume "\<not> 157 / 50 < pi"
    then have "pi / 6 \<le> (157 / 300 :: real)" by simp
    moreover have "- (pi / 2) \<le> pi / 6" using pi_ge_zero by linarith
    moreover have "(157 / 300 :: real) \<le> pi / 2" using pi_ge_two by simp
    ultimately have "sin (pi / 6) \<le> sin (157 / 300 :: real)"
      by (simp add: sin_mono_le_eq)
    then show False using sin_poly_upper by (simp add: sin_30)
  qed
  ultimately show ?thesis by simp
qed

subsection \<open>Tracking errors (C2)\<close>

text \<open>
  Claim C2. For every current pose \<open>(x, y, \<theta>)\<close> and reference pose
  \<open>(x_ref, y_ref, \<theta>_ref)\<close>, \<open>updateTrackingErrors\<close> stores \<open>e_x = x - x_ref\<close>,
  \<open>e_y = y - y_ref\<close> and \<open>e_theta = angleWithinPI (\<theta> - \<theta>_ref)\<close> and touches no other
  member; \<open>angleWithinPI\<close> moves any angle by whole turns into \<open>(-\<pi>, \<pi>]\<close>; for \<open>\<theta> = 3\<close>
  and \<open>\<theta>_ref = -3\<close> the stored heading error is \<open>6 - 2\<pi>\<close>, a number between \<open>-0.30\<close>
  and \<open>-0.28\<close>, not 6.
\<close>

theorem C2_tracking_errors:
  "updateTrackingErrors s (x_ref, y_ref, theta_ref) (x, y, theta) =
     s\<lparr>e_x := x - x_ref, e_y := y - y_ref, e_theta := angleWithinPI (theta - theta_ref)\<rparr>
   \<and> - pi < angleWithinPI a \<and> angleWithinPI a \<le> pi
   \<and> (\<exists>k::int. angleWithinPI a = a - 2 * pi * of_int k)
   \<and> e_theta (updateTrackingErrors s (x_ref, y_ref, - 3) (x, y, 3)) = 6 - 2 * pi
   \<and> 6 - 2 * pi \<noteq> (6::real) \<and> - (3 / 10) < 6 - 2 * pi \<and> 6 - 2 * pi < - (7 / 25)"
proof -
  have "\<exists>k::int. angleWithinPI a = a - 2 * pi * of_int k"
    unfolding angleWithinPI_def by blast
  moreover have "- (3 / 10) < 6 - 2 * pi" "6 - 2 * pi < - (7 / 25)"
    using pi_bounds by simp_all
  ultimately show ?thesis
    using angleWithinPI_range [of a] angleWithinPI_6
    by (simp add: updateTrackingErrors_def)
qed

subsection \<open>The empty-trajectory guard (C4)\<close>

text \<open>
  Claim C4. In every state whose desired-input sequence or desired-pose sequence is
  empty, \<open>computeLaw\<close> and \<open>step\<close> throw \<open>DESIRED_TRAJECTORY_INCOMPLETE\<close> with the output
  argument set to zero and the controller untouched, whatever the \<open>finished\<close> flag is: the
  test for an empty trajectory comes first. A freshly constructed controller is such a
  state, and its \<open>finished\<close> flag is true.
\<close>

theorem C4_empty_trajectory_raises:
  "(u_desired s = [] \<or> pose_desired s = [] \<longrightarrow>
      computeLaw s pose u_out = (Thrown DESIRED_TRAJECTORY_INCOMPLETE, (0, 0), s) \<and>
      step s pose u_out = (Thrown DESIRED_TRAJECTORY_INCOMPLETE, (0, 0), s))
   \<and> finished (LyapController_ctor kp ktheta dt offset0)
   \<and> step (LyapController_ctor kp ktheta dt offset0) pose u_out =
       (Thrown DESIRED_TRAJECTORY_INCOMPLETE, (0, 0), LyapController_ctor kp ktheta dt offset0)"
  by (simp add: computeLaw_def step_def LyapController_ctor_def)

text \<open>A controller that holds one pose and no input, with \<open>finished\<close> still true from
  the constructor: the call throws instead of returning zero.\<close>

theorem C4_empty_trajectory_raises_witness:
  "finished (addStateDesired (LyapController_ctor 1 1 1 (0, 0, 0)) (5, 5, 0))
   \<and> pose_desired (addStateDesired (LyapController_ctor 1 1 1 (0, 0, 0)) (5, 5, 0)) \<noteq> []
   \<and> u_desired (addStateDesired (LyapController_ctor 1 1 1 (0, 0, 0)) (5, 5, 0)) = []
   \<and> step (addStateDesired (LyapController_ctor 1 1 1 (0, 0, 0)) (5, 5, 0)) (1, 2, 3) (7, 7) =
       (Thrown DESIRED_TRAJECTORY_INCOMPLETE, (0, 0),
        addStateDesired (LyapController_ctor 1 1 1 (0, 0, 0)) (5, 5, 0))"
  using C4_empty_trajectory_raises
    [of "addStateDesired (LyapController_ctor 1 1 1 (0, 0, 0)) (5, 5, 0)" "(1, 2, 3)" "(7, 7)"]
  by (simp add: addStateDesired_def LyapController_ctor_def)

subsection \<open>The finished controller (C8)\<close>

text \<open>
  Claim C8. In every state with non-empty input and pose sequences and \<open>finished\<close> true,
  \<open>computeLaw\<close> returns with the output set to zero and the controller exactly as it was:
  cached errors, \<open>current_time\<close>, \<open>time_end\<close>, \<open>finished\<close> and both sequences.
\<close>

theorem C8_finished_zero_output:
  "u_desired s \<noteq> [] \<Longrightarrow> pose_desired s \<noteq> [] \<Longrightarrow> finished s \<Longrightarrow>
     computeLaw s pose u_out = (Returned, (0, 0), s)"
  by (simp add: computeLaw_def)

theorem C8_finished_zero_output_witness:
  "computeLaw
     (addToInputDesired (addStateDesired (LyapController_ctor 2 3 1 (0, 0, 0)) (5, 5, 0)) 1 0)
     (1, 2, 3) (7, 7) =
   (Returned, (0, 0),
    addToInputDesired (addStateDesired (LyapController_ctor 2 3 1 (0, 0, 0)) (5, 5, 0)) 1 0)"
proof -
  let ?s = "addToInputDesired (addStateDesired (LyapController_ctor 2 3 1 (0, 0, 0)) (5, 5, 0)) 1 0"
  have "u_desired ?s \<noteq> []" "pose_desired ?s \<noteq> []" "finished ?s"
    by (simp_all add: addToInputDesired_def addStateDesired_def LyapController_ctor_def)
  then show ?thesis by (rule C8_finished_zero_output)
qed

subsection \<open>What the runtime entry points write (C9)\<close>

text \<open>
  Claim C9. \<open>computeLaw\<close> leaves every member of the controller as it was except the
  cached errors \<open>e_x\<close>, \<open>e_y\<close>, \<open>e_theta\<close>; \<open>step\<close> leaves every member as it was except
  those three and \<open>finished\<close>. In particular neither changes the gains or the two stored
  sequences, and \<open>step\<close> reads \<open>current_time\<close> without changing it.
\<close>

theorem C9_footprint:
  "state_of (computeLaw s pose u_out) =
     s\<lparr>e_x := e_x (state_of (computeLaw s pose u_out)),
       e_y := e_y (state_of (computeLaw s pose u_out)),
       e_theta := e_theta (state_of (computeLaw s pose u_out))\<rparr>
   \<and> state_of (step s pose u_out) =
     s\<lparr>e_x := e_x (state_of (step s pose u_out)),
       e_y := e_y (state_of (step s pose u_out)),
       e_theta := e_theta (state_of (step s pose u_out)),
       finished := finished (state_of (step s pose u_out))\<rparr>
   \<and> Kp (state_of (step s pose u_out)) = Kp s
   \<and> Ktheta (state_of (step s pose u_out)) = Ktheta s
   \<and> u_desired (state_of (step s pose u_out)) = u_desired s
   \<and> pose_desired (state_of (step s pose u_out)) = pose_desired s
   \<and> current_time (state_of (step s pose u_out)) = current_time s"
  by (simp add: step_state endReached_state computeLaw_state [symmetric])
     (simp add: computeLaw_def state_of_def updateTrackingErrors_eq Let_def split: sum.splits)

subsection \<open>Loading by copy: the roto-translation (C6)\<close>

text \<open>
  Claim C6. For all \<open>(v, \<omega>)\<close> samples \<open>us\<close> and pose samples \<open>ps\<close> handed to
  \<open>copyTrajectory\<close> as its five arrays, the call returns with the inputs stored unchanged
  (behind what the store held) and each pose \<open>(x, y, \<theta>)\<close> stored as
  \<open>(x\<^sub>0 + x cos \<theta>\<^sub>0 - y sin \<theta>\<^sub>0, y\<^sub>0 + x sin \<theta>\<^sub>0 + y cos \<theta>\<^sub>0, \<theta>\<^sub>0 + \<theta>)\<close> for the offset pose
  \<open>(x\<^sub>0, y\<^sub>0, \<theta>\<^sub>0)\<close>; for any five arrays, a call that returns has stored exactly the samples
  they pair up to. With the offset \<open>(0, 0, 0)\<close> the stored poses are the supplied ones,
  and for any offset the inverse roto-translation of the stored poses gives the supplied
  ones back.
\<close>

theorem C6_copyTrajectory_rototranslation:
  "copyTrajectory s (map fst us) (map snd us)
       (map fst ps) (map (\<lambda>p. fst (snd p)) ps) (map (\<lambda>p. snd (snd p)) ps) =
     (Returned,
      s\<lparr>u_desired := u_desired s @ us,
        pose_desired := pose_desired s @
          map (\<lambda>(x, y, th). pose_with_offset (pose_offset s) x y th) ps,
        time_end := getStepTime (RobotModel s) * real (length (pose_desired s) + length ps),
        finished := False\<rparr>)
   \<and> (copyTrajectory s v omega xs ys thetas = (Returned, s') \<longrightarrow>
        length v \<le> length omega \<and> length xs \<le> length ys \<and> length xs \<le> length thetas \<and>
        u_desired s' = u_desired s @ zip v omega \<and>
        pose_desired s' = pose_desired s @
          map (\<lambda>(x, y, th). pose_with_offset (pose_offset s) x y th) (zip xs (zip ys thetas)))
   \<and> pose_with_offset (x0, y0, th0) x y th =
       (x0 + x * cos th0 - y * sin th0, y0 + x * sin th0 + y * cos th0, th0 + th)
   \<and> map (\<lambda>(x, y, th). pose_with_offset (0, 0, 0) x y th) ps = ps
   \<and> map (inverse_pose_with_offset offset)
         (map (\<lambda>(x, y, th). pose_with_offset offset x y th) ps) = ps"
proof -
  have z2: "zip (map fst us) (map snd us) = us"
    by (induction us) auto
  have z3: "zip (map fst ps) (zip (map (\<lambda>p. fst (snd p)) ps) (map (\<lambda>p. snd (snd p)) ps)) = ps"
    by (induction ps) auto
  have i0: "map (\<lambda>(x, y, th). pose_with_offset (0, 0, 0) x y th) ps = ps"
    by (induction ps) (auto simp add: pose_with_offset_def)
  have inv: "map (inverse_pose_with_offset offset)
         (map (\<lambda>(x, y, th). pose_with_offset offset x y th) ps) = ps"
    by (induction ps) (auto simp add: inverse_pose_with_offset_cancel)
  have f: "pose_with_offset (x0, y0, th0) x y th =
       (x0 + x * cos th0 - y * sin th0, y0 + x * sin th0 + y * cos th0, th0 + th)"
    by (simp add: pose_with_offset_def mult.commute)
  have c: "copyTrajectory s (map fst us) (map snd us)
       (map fst ps) (map (\<lambda>p. fst (snd p)) ps) (map (\<lambda>p. snd (snd p)) ps) =
     (Returned,
      s\<lparr>u_desired := u_desired s @ us,
        pose_desired := pose_desired s @
          map (\<lambda>(x, y, th). pose_with_offset (pose_offset s) x y th) ps,
        time_end := getStepTime (RobotModel s) * real (length (pose_desired s) + length ps),
        finished := False\<rparr>)"
    by (simp add: copyTrajectory_eq z2 z3)
  have g: "length v \<le> length omega \<and> length xs \<le> length ys \<and> length xs \<le> length thetas \<and>
        u_desired s' = u_desired s @ zip v omega \<and>
        pose_desired s' = pose_desired s @
          map (\<lambda>(x, y, th). pose_with_offset (pose_offset s) x y th) (zip xs (zip ys thetas))"
    if "copyTrajectory s v omega xs ys thetas = (Returned, s')"
    using that by (auto simp add: copyTrajectory_eq split: if_splits)
  show ?thesis using c f i0 inv g by blast
qed

text \<open>The two-sample trajectory loaded with a zero offset, and with the offset
  \<open>(5, 6, \<pi>)\<close>, which turns the path by half a turn.\<close>

theorem C6_copyTrajectory_rototranslation_witness:
  "copyTrajectory (LyapController_ctor 2 3 1 (0, 0, 0)) [1, 1] [0, 0] [0, 1] [0, 0] [0, 0] =
     (Returned, loaded_example)
   \<and> u_desired loaded_example = [(1, 0), (1, 0)]
   \<and> pose_desired loaded_example = [(0, 0, 0), (1, 0, 0)]
   \<and> pose_desired (snd (copyTrajectory (LyapController_ctor 2 3 1 (5, 6, pi))
         [1, 1] [0, 0] [0, 1] [0, 0] [0, 0])) = [(5, 6, pi), (4, 6, pi)]
   \<and> map (inverse_pose_with_offset (5, 6, pi)) [(5, 6, pi), (4, 6, pi)] = [(0, 0, 0), (1, 0, 0)]"
proof -
  have a: "copyTrajectory (LyapController_ctor 2 3 1 (0, 0, 0)) [1, 1] [0, 0] [0, 1] [0, 0] [0, 0] =
     (Returned, loaded_example)"
    by (simp add: loaded_example_def copyTrajectory_eq)
  have b: "[1, 1] = map fst [(1::real, 0::real), (1, 0)]" "[0, 0] = map snd [(1::real, 0::real), (1, 0)]"
    "[0, 1] = map fst [(0::real, 0::real, 0::real), (1, 0, 0)]"
    "[0, 0] = map (\<lambda>p. fst (snd p)) [(0::real, 0::real, 0::real), (1, 0, 0)]"
    "[0, 0] = map (\<lambda>p. snd (snd p)) [(0::real, 0::real, 0::real), (1, 0, 0)]"
    by simp_all
  show ?thesis
    using a
      C6_copyTrajectory_rototranslation
        [where s = "LyapController_ctor 2 3 1 (5, 6, pi)" and us = "[(1, 0), (1, 0)]"
           and ps = "[(0, 0, 0), (1, 0, 0)]" and offset = "(5, 6, pi)"]
      C6_copyTrajectory_rototranslation
        [where s = "LyapController_ctor 2 3 1 (0, 0, 0)" and v = "[1, 1]" and omega = "[0, 0]"
           and xs = "[0, 1]" and ys = "[0, 0]" and thetas = "[0, 0]" and s' = loaded_example]
    by (simp add: loaded_example_eq pose_with_offset_def LyapController_ctor_def)
qed

subsection \<open>Rebuilding the trajectory (C7)\<close>

text \<open>
  Claim C7 says that each call of \<open>copyTrajectory\<close> or \<open>generateTrajectory\<close> replaces
  what the store held. Neither function clears the two sequences: a second
  \<open>copyTrajectory\<close> on a loaded controller leaves the earlier samples in front of the
  new ones, and \<open>generateTrajectory\<close> adds one pose per stored input behind the poses
  already there.
\<close>

theorem C7_counterexample:
  "pose_desired (snd (copyTrajectory loaded_example [5] [0] [9] [0] [0])) =
     [(0, 0, 0), (1, 0, 0), (9, 0, 0)]
   \<and> pose_desired (snd (copyTrajectory loaded_example [5] [0] [9] [0] [0])) \<noteq> [(9, 0, 0)]
   \<and> u_desired (snd (copyTrajectory loaded_example [5] [0] [9] [0] [0])) = [(1, 0), (1, 0), (5, 0)]
   \<and> u_desired (snd (copyTrajectory loaded_example [5] [0] [9] [0] [0])) \<noteq> [(5, 0)]
   \<and> pose_desired (generateTrajectory id loaded_example) =
       [(0, 0, 0), (1, 0, 0), (0, 0, 0), (0, 0, 0)]"
  by (simp add: loaded_example_eq copyTrajectory_eq pose_with_offset_def generateTrajectory_def
      integrateState_def addStateDesired_def resetState_def setControlInput_def getState_def)

text \<open>
  Claim C7, amended. Every call of \<open>copyTrajectory\<close> that returns appends to what the
  store held: the supplied inputs, unchanged, behind the inputs, and the supplied poses,
  each roto-translated by the offset pose, behind the poses. Every call of
  \<open>generateTrajectory\<close> keeps the inputs and appends, for each stored input in order, the
  pose the model reaches by integrating that input, starting from the offset pose. On
  completion \<open>time_end\<close> is the step time times the number of stored poses and \<open>finished\<close>
  is false; every other member is as before. This holds from any state, hence for
  repeated rebuilds.
\<close>

theorem C7_rebuild_appends:
  "(copyTrajectory s v omega x y theta = (Returned, s') \<longrightarrow>
      s' = s\<lparr>u_desired := u_desired s @ zip v omega,
             pose_desired := pose_desired s @
               map (\<lambda>(xi, yi, ti). pose_with_offset (pose_offset s) xi yi ti) (zip x (zip y theta)),
             time_end := getStepTime (RobotModel s) * real (length (pose_desired s) + length x),
             finished := False\<rparr> \<and>
      length (zip v omega) = length v \<and> length (zip x (zip y theta)) = length x \<and>
      time_end s' = getStepTime (RobotModel s') * real (length (pose_desired s')) \<and>
      \<not> finished s')
   \<and> u_desired (generateTrajectory integrate s) = u_desired s
   \<and> pose_desired (generateTrajectory integrate s) =
       pose_desired s @
         model_poses integrate (resetState (RobotModel s) (pose_offset s)) (u_desired s)
   \<and> length (model_poses integrate (resetState (RobotModel s) (pose_offset s)) (u_desired s)) =
       length (u_desired s)
   \<and> time_end (generateTrajectory integrate s) =
       getStepTime (RobotModel (generateTrajectory integrate s)) *
         real (length (pose_desired (generateTrajectory integrate s)))
   \<and> \<not> finished (generateTrajectory integrate s)"
proof -
  have "s' = s\<lparr>u_desired := u_desired s @ zip v omega,
             pose_desired := pose_desired s @
               map (\<lambda>(xi, yi, ti). pose_with_offset (pose_offset s) xi yi ti) (zip x (zip y theta)),
             time_end := getStepTime (RobotModel s) * real (length (pose_desired s) + length x),
             finished := False\<rparr> \<and>
      length (zip v omega) = length v \<and> length (zip x (zip y theta)) = length x \<and>
      time_end s' = getStepTime (RobotModel s') * real (length (pose_desired s')) \<and>
      \<not> finished s'"
    if r: "copyTrajectory s v omega x y theta = (Returned, s')"
  proof -
    from r have l: "length v \<le> length omega" "length x \<le> length y" "length x \<le> length theta"
      by (simp_all add: copyTrajectory_eq split: if_splits)
    let ?ps = "map (\<lambda>(xi, yi, ti). pose_with_offset (pose_offset s) xi yi ti) (zip x (zip y theta))"
    from r l have s': "s' = s\<lparr>u_desired := u_desired s @ zip v omega,
           pose_desired := pose_desired s @ ?ps,
           time_end := getStepTime (RobotModel s) * real (length (pose_desired s) + length x),
           finished := False\<rparr>"
      by (simp add: copyTrajectory_eq)
    have "length ?ps = length x" using l by simp
    then show ?thesis using l s' by simp
  qed
  moreover have "length (model_poses integrate m us) = length us" for m us
    by (induction us arbitrary: m) simp_all
  ultimately show ?thesis
    using generateTrajectory_props [of integrate s] generateTrajectory_poses [of integrate s]
    by blast
qed

text \<open>
  A rebuild of the loaded controller by \<open>copyTrajectory\<close> with one more input and the
  pose \<open>(9, 0, 0)\<close>, and a rebuild by \<open>generateTrajectory\<close> with the integrator \<open>along_x\<close>:
  the two stored inputs \<open>(1, 0)\<close> give the poses \<open>(1, 0, 0)\<close> and \<open>(2, 0, 0)\<close>, stored behind
  the two poses already there.
\<close>

theorem C7_rebuild_appends_witness:
  "copyTrajectory loaded_example [5] [0] [9] [0] [0] =
     (Returned,
      loaded_example\<lparr>u_desired := [(1, 0), (1, 0), (5, 0)],
        pose_desired := [(0, 0, 0), (1, 0, 0), (9, 0, 0)], time_end := 3, finished := False\<rparr>)
   \<and> u_desired (generateTrajectory along_x loaded_example) = [(1, 0), (1, 0)]
   \<and> pose_desired (generateTrajectory along_x loaded_example) =
       [(0, 0, 0), (1, 0, 0), (1, 0, 0), (2, 0, 0)]
   \<and> time_end (generateTrajectory along_x loaded_example) = 4
   \<and> \<not> finished (generateTrajectory along_x loaded_example)"
proof -
  let ?s' = "loaded_example\<lparr>u_desired := [(1, 0), (1, 0), (5, 0)],
        pose_desired := [(0, 0, 0), (1, 0, 0), (9, 0, 0)], time_end := 3, finished := False\<rparr>"
  have r: "copyTrajectory loaded_example [5] [0] [9] [0] [0] = (Returned, ?s')"
    by (simp add: loaded_example_eq copyTrajectory_eq pose_with_offset_def getStepTime_def)
  have m: "model_poses along_x (resetState (RobotModel loaded_example) (pose_offset loaded_example))
             (u_desired loaded_example) = [(1, 0, 0), (2, 0, 0)]"
    by (simp add: loaded_example_eq resetState_def setControlInput_def getState_def along_x_def)
  have d: "getStepTime (RobotModel (generateTrajectory along_x loaded_example)) = 1"
    by (simp add: generateTrajectory_def Let_def integrateState_def addStateDesired_def
        loaded_example_eq resetState_def setControlInput_def getState_def along_x_def
        getStepTime_def)
  show ?thesis
    using r m d
      C7_rebuild_appends [of loaded_example "[5]" "[0]" "[9]" "[0]" "[0]" ?s' along_x]
    by (simp add: loaded_example_eq)
qed

subsection \<open>The completion flag (C5)\<close>

text \<open>
  Claim C5 says that every \<open>step\<close> call sets \<open>finished\<close> when \<open>current_time\<close> has reached
  \<open>n \<cdot> dt\<close>. The test is made by \<open>endReached\<close> after \<open>computeLaw\<close>, so a call in which
  \<open>computeLaw\<close> throws never makes it: past the end of a trajectory with one input and two
  poses the input lookup throws, and with an empty trajectory loaded the guard throws;
  \<open>finished\<close> stays false in both.
\<close>

theorem C5_counterexample:
  "getStepTime (RobotModel (short_inputs_example\<lparr>current_time := 5\<rparr>)) *
       real (length (pose_desired (short_inputs_example\<lparr>current_time := 5\<rparr>)))
     \<le> current_time (short_inputs_example\<lparr>current_time := 5\<rparr>)
   \<and> step (short_inputs_example\<lparr>current_time := 5\<rparr>) (0, 0, 0) (7, 7) =
       (Thrown OUT_OF_RANGE, (7, 7), short_inputs_example\<lparr>current_time := 5\<rparr>)
   \<and> \<not> finished (state_of (step (short_inputs_example\<lparr>current_time := 5\<rparr>) (0, 0, 0) (7, 7)))
   \<and> step (snd (copyTrajectory (LyapController_ctor 2 3 1 (0, 0, 0)) [] [] [] [] []))
         (0, 0, 0) (7, 7) =
       (Thrown DESIRED_TRAJECTORY_INCOMPLETE, (0, 0),
        snd (copyTrajectory (LyapController_ctor 2 3 1 (0, 0, 0)) [] [] [] [] []))
   \<and> \<not> finished (snd (copyTrajectory (LyapController_ctor 2 3 1 (0, 0, 0)) [] [] [] [] []))
   \<and> getStepTime (RobotModel (snd (copyTrajectory (LyapController_ctor 2 3 1 (0, 0, 0)) [] [] [] [] []))) *
       real (length (pose_desired (snd (copyTrajectory (LyapController_ctor 2 3 1 (0, 0, 0)) [] [] [] [] []))))
     \<le> current_time (snd (copyTrajectory (LyapController_ctor 2 3 1 (0, 0, 0)) [] [] [] [] []))"
proof -
  have r: "cmath_round 5 = 5"
    using cmath_round_of_nat [of 5] by simp
  show ?thesis
    by (simp add: short_inputs_example_eq step_def computeLaw_def state_of_def
        getControlInputDesiredOnTime_def getIndexIntegerBasedOnTime_def getStepTime_def
        vector_at_def r double_to_int_small copyTrajectory_eq LyapController_ctor_def
        UnicycleModel_ctor_def)
qed

text \<open>
  Claim C5, amended. With \<open>n\<close> stored poses and step time \<open>dt\<close>: a \<open>step\<close> call made with
  \<open>finished\<close> false and \<open>current_time < n \<cdot> dt\<close> leaves \<open>finished\<close> false; a \<open>step\<close> call
  that returns leaves \<open>finished\<close> true exactly when it was true before or
  \<open>current_time \<ge> n \<cdot> dt\<close>; a \<open>step\<close> call that throws leaves the controller, and so
  \<open>finished\<close>, as it was; once \<open>finished\<close> is true it is true after any sequence of \<open>step\<close>
  calls; \<open>copyTrajectory\<close> (when it returns) and \<open>generateTrajectory\<close> set it to false.
\<close>

theorem C5_completion_flag:
  "(\<not> finished s \<and> current_time s < getStepTime (RobotModel s) * real (length (pose_desired s)) \<longrightarrow>
      \<not> finished (state_of (step s pose u_out)))
   \<and> (outcome_of (step s pose u_out) = Returned \<longrightarrow>
        finished (state_of (step s pose u_out)) =
          (finished s \<or> getStepTime (RobotModel s) * real (length (pose_desired s)) \<le> current_time s))
   \<and> (outcome_of (step s pose u_out) \<noteq> Returned \<longrightarrow> state_of (step s pose u_out) = s)
   \<and> (finished s \<longrightarrow> finished (step_calls s calls))
   \<and> (copyTrajectory s v omega x y theta = (Returned, s') \<longrightarrow> \<not> finished s')
   \<and> \<not> finished (generateTrajectory integrate s)"
proof -
  have "\<not> finished s'" if "copyTrajectory s v omega x y theta = (Returned, s')"
    using that by (auto simp add: copyTrajectory_eq split: if_splits)
  then show ?thesis
    using generateTrajectory_props [of integrate s] step_Thrown [of s pose u_out]
      step_calls_finished [of s calls]
    by (auto simp add: step_finished computeMaxTime_def)
qed

theorem C5_completion_flag_witness:
  "\<not> finished loaded_example
   \<and> current_time loaded_example <
       getStepTime (RobotModel loaded_example) * real (length (pose_desired loaded_example))
   \<and> outcome_of (step loaded_example (1, 0, 0) (7, 7)) = Returned
   \<and> \<not> finished (state_of (step loaded_example (1, 0, 0) (7, 7)))
   \<and> outcome_of (step (loaded_example\<lparr>current_time := 2\<rparr>) (1, 0, 0) (7, 7)) = Returned
   \<and> finished (state_of (step (loaded_example\<lparr>current_time := 2\<rparr>) (1, 0, 0) (7, 7)))
   \<and> finished (step_calls (state_of (step (loaded_example\<lparr>current_time := 2\<rparr>) (1, 0, 0) (7, 7)))
        [((0, 0, 0), (0, 0)), ((1, 1, 1), (0, 0))])
   \<and> outcome_of (step (LyapController_ctor 2 3 1 (0, 0, 0)) (1, 0, 0) (7, 7)) \<noteq> Returned
   \<and> state_of (step (LyapController_ctor 2 3 1 (0, 0, 0)) (1, 0, 0) (7, 7)) =
       LyapController_ctor 2 3 1 (0, 0, 0)
   \<and> copyTrajectory (LyapController_ctor 2 3 1 (0, 0, 0)) [1, 1] [0, 0] [0, 1] [0, 0] [0, 0] =
       (Returned, loaded_example)"
proof -
  have a: "\<not> finished loaded_example"
    "current_time loaded_example <
       getStepTime (RobotModel loaded_example) * real (length (pose_desired loaded_example))"
    by (simp_all add: loaded_example_eq getStepTime_def)
  have b: "outcome_of (step loaded_example (1, 0, 0) (7, 7)) = Returned"
    "outcome_of (step (loaded_example\<lparr>current_time := 2\<rparr>) (1, 0, 0) (7, 7)) = Returned"
    using loaded_example_lookups
    by (simp_all add: step_outcome computeLaw_outcome) (simp_all add: loaded_example_eq)
  have c: "getStepTime (RobotModel (loaded_example\<lparr>current_time := 2\<rparr>)) *
       real (length (pose_desired (loaded_example\<lparr>current_time := 2\<rparr>)))
     \<le> current_time (loaded_example\<lparr>current_time := 2\<rparr>)"
    by (simp add: loaded_example_eq getStepTime_def)
  have d: "outcome_of (step (LyapController_ctor 2 3 1 (0, 0, 0)) (1, 0, 0) (7, 7)) \<noteq> Returned"
    by (simp add: step_outcome computeLaw_outcome LyapController_ctor_def)
  have e: "copyTrajectory (LyapController_ctor 2 3 1 (0, 0, 0)) [1, 1] [0, 0] [0, 1] [0, 0] [0, 0] =
       (Returned, loaded_example)"
    by (simp add: loaded_example_def copyTrajectory_eq)
  have f: "finished (state_of (step (loaded_example\<lparr>current_time := 2\<rparr>) (1, 0, 0) (7, 7)))"
    using C5_completion_flag [of "loaded_example\<lparr>current_time := 2\<rparr>" "(1, 0, 0)" "(7, 7)"] b c
    by simp
  show ?thesis
    using a b d e f
      C5_completion_flag [of loaded_example "(1, 0, 0)" "(7, 7)"]
      C5_completion_flag [of "state_of (step (loaded_example\<lparr>current_time := 2\<rparr>) (1, 0, 0) (7, 7))"
        _ _ "[((0, 0, 0), (0, 0)), ((1, 1, 1), (0, 0))]"]
      C5_completion_flag [of "LyapController_ctor 2 3 1 (0, 0, 0)" "(1, 0, 0)" "(7, 7)"]
    by simp
qed

subsection \<open>Time to index, and the lookups (C3)\<close>

text \<open>
  Claim C3 says that for every \<open>t \<ge> 0\<close> and every state with at least one stored pose the
  index is \<open>round (t / dt)\<close> clamped to \<open>[0, n - 1]\<close> and both lookups return the stored
  sample there. The source clamps from above only, and by the number of poses only: with
  a negative step time the index of a positive time is negative and the pose lookup
  throws; with fewer inputs than poses the input lookup throws at an index the pose lookup
  accepts; and a quotient too large for an \<^verbatim>\<open>int\<close> (here \<open>t = 3 \<cdot> 10\<^sup>9\<close> with \<open>dt = 1\<close>) is
  converted to \<open>INT_MIN\<close>, which the clamp lets through and the pose lookup rejects.
\<close>

theorem C3_counterexample:
  "getIndexIntegerBasedOnTime
      (addStateDesired (LyapController_ctor 2 3 (- 1) (0, 0, 0)) (0, 0, 0)) 1 = - 1
   \<and> getPoseDesiredOnTime
      (addStateDesired (LyapController_ctor 2 3 (- 1) (0, 0, 0)) (0, 0, 0)) 1 = Inl OUT_OF_RANGE
   \<and> getIndexIntegerBasedOnTime short_inputs_example 1 = 1
   \<and> getPoseDesiredOnTime short_inputs_example 1 = Inr (1, 0, 0)
   \<and> getControlInputDesiredOnTime short_inputs_example 1 = Inl OUT_OF_RANGE
   \<and> getIndexIntegerBasedOnTime loaded_example 3000000000 = - 2147483648
   \<and> getPoseDesiredOnTime loaded_example 3000000000 = Inl OUT_OF_RANGE"
proof -
  have r: "cmath_round (- 1) = - 1" "cmath_round 1 = 1" "cmath_round 3000000000 = 3000000000"
    using cmath_round_minus_of_nat [of 1] cmath_round_of_nat [of 1]
      cmath_round_of_nat [of 3000000000]
    by simp_all
  have c: "double_to_int 3000000000 = - 2147483648"
    by (simp add: double_to_int_def INT_MIN_def INT_MAX_def)
  show ?thesis
    by (simp add: short_inputs_example_eq loaded_example_eq getControlInputDesiredOnTime_def
        getPoseDesiredOnTime_def getIndexIntegerBasedOnTime_def getStepTime_def vector_at_def r c
        double_to_int_small addStateDesired_def LyapController_ctor_def UnicycleModel_ctor_def)
qed

text \<open>
  Claim C3, amended. For every \<open>t \<ge> 0\<close> and every state with a positive step time \<open>dt\<close>
  and \<open>n \<ge> 1\<close> stored poses, for which \<open>round (t / dt)\<close> fits an \<^verbatim>\<open>int\<close> (is at most
  \<open>INT_MAX = 2\<^sup>3\<^sup>1 - 1\<close>), the index is \<open>round (t / dt)\<close> clamped to \<open>[0, n - 1]\<close> (on a
  non-negative quotient the rounding of the source and \<^const>\<open>round\<close> agree), times at or
  beyond \<open>n \<cdot> dt\<close> give \<open>n - 1\<close>, the pose lookup returns exactly the stored pose at that
  index, and the input lookup returns exactly the stored input at that index when the
  index is below the number of stored inputs, and throws \<open>OUT_OF_RANGE\<close> otherwise.
\<close>

theorem C3_time_index:
  assumes "0 \<le> t" and "0 < getStepTime (RobotModel s)" and "pose_desired s \<noteq> []"
    and "round (t / getStepTime (RobotModel s)) \<le> INT_MAX"
    and "i = min (round (t / getStepTime (RobotModel s))) (int (length (pose_desired s)) - 1)"
  shows "getIndexIntegerBasedOnTime s t = i
    \<and> 0 \<le> i \<and> i \<le> int (length (pose_desired s)) - 1
    \<and> (getStepTime (RobotModel s) * real (length (pose_desired s)) \<le> t \<longrightarrow>
         i = int (length (pose_desired s)) - 1)
    \<and> getPoseDesiredOnTime s t = Inr (pose_desired s ! nat i)
    \<and> getControlInputDesiredOnTime s t =
        (if i < int (length (u_desired s)) then Inr (u_desired s ! nat i) else Inl OUT_OF_RANGE)"
proof -
  let ?dt = "getStepTime (RobotModel s)"
  let ?n = "int (length (pose_desired s))"
  have q: "0 \<le> t / ?dt" using assms by simp
  then have r: "cmath_round (t / ?dt) = round (t / ?dt)" by (rule cmath_round_nonneg)
  have r0: "0 \<le> round (t / ?dt)" using q by (simp add: round_def)
  have c: "double_to_int (round (t / ?dt)) = round (t / ?dt)"
    using r0 assms(4) by (simp add: double_to_int_def INT_MIN_def)
  have n: "1 \<le> ?n" using assms(3) by (cases "pose_desired s") simp_all
  have idx: "getIndexIntegerBasedOnTime s t = i"
    using assms(2,5) by (simp add: getIndexIntegerBasedOnTime_eq r c min_def)
  have i0: "0 \<le> i" using r0 n assms(5) by linarith
  have i1: "i \<le> ?n - 1" using assms(5) by simp
  have sat: "i = ?n - 1" if "?dt * real (length (pose_desired s)) \<le> t"
  proof -
    from that assms(2) have "real (length (pose_desired s)) \<le> t / ?dt"
      by (simp add: pos_le_divide_eq mult.commute)
    then have "of_int ?n \<le> t / ?dt" by simp
    then have "?n \<le> round (t / ?dt)" unfolding round_def by linarith
    then show ?thesis using assms(5) by simp
  qed
  show ?thesis
    using idx i0 i1 sat
    by (simp add: getPoseDesiredOnTime_def getControlInputDesiredOnTime_def vector_at_def)
qed

theorem C3_time_index_witness:
  "getIndexIntegerBasedOnTime (loaded_example\<lparr>current_time := 2\<rparr>) 7 = 1
   \<and> getPoseDesiredOnTime (loaded_example\<lparr>current_time := 2\<rparr>) 7 = Inr (1, 0, 0)
   \<and> getControlInputDesiredOnTime (loaded_example\<lparr>current_time := 2\<rparr>) 7 = Inr (1, 0)
   \<and> getControlInputDesiredOnTime short_inputs_example 7 = Inl OUT_OF_RANGE"
proof -
  have r: "round (7 :: real) = 7" by (simp add: round_def) 
  have a: "(0::real) \<le> 7" by simp
  have b: "0 < getStepTime (RobotModel (loaded_example\<lparr>current_time := 2\<rparr>))"
    "pose_desired (loaded_example\<lparr>current_time := 2\<rparr>) \<noteq> []"
    "round (7 / getStepTime (RobotModel (loaded_example\<lparr>current_time := 2\<rparr>))) \<le> INT_MAX"
    "(1::int) = min (round (7 / getStepTime (RobotModel (loaded_example\<lparr>current_time := 2\<rparr>))))
        (int (length (pose_desired (loaded_example\<lparr>current_time := 2\<rparr>))) - 1)"
    by (simp_all add: loaded_example_eq getStepTime_def r INT_MAX_def)
  have c: "0 < getStepTime (RobotModel short_inputs_example)"
    "pose_desired short_inputs_example \<noteq> []"
    "round (7 / getStepTime (RobotModel short_inputs_example)) \<le> INT_MAX"
    "(1::int) = min (round (7 / getStepTime (RobotModel short_inputs_example)))
        (int (length (pose_desired short_inputs_example)) - 1)"
    by (simp_all add: short_inputs_example_eq getStepTime_def r INT_MAX_def)
  show ?thesis
    using C3_time_index [OF a b] C3_time_index [OF a c]
    by (simp add: loaded_example_eq short_inputs_example_eq)
qed

subsection \<open>The control law (C1)\<close>

text \<open>
  Claim C1 says that \<open>computeLaw\<close> returns \<open>u_ref + du\<close> in every state with non-empty
  sequences and \<open>finished\<close> false. The reference input is read with \<^verbatim>\<open>at\<close> at an index
  clamped by the number of poses: with one input and two poses, at \<open>current_time = dt\<close>
  the call throws \<open>OUT_OF_RANGE\<close> and returns nothing.
\<close>

theorem C1_counterexample:
  "u_desired (short_inputs_example\<lparr>current_time := 1\<rparr>) \<noteq> []
   \<and> pose_desired (short_inputs_example\<lparr>current_time := 1\<rparr>) \<noteq> []
   \<and> \<not> finished (short_inputs_example\<lparr>current_time := 1\<rparr>)
   \<and> computeLaw (short_inputs_example\<lparr>current_time := 1\<rparr>) (0, 0, 0) (7, 7) =
       (Thrown OUT_OF_RANGE, (7, 7), short_inputs_example\<lparr>current_time := 1\<rparr>)"
proof -
  have r: "cmath_round 1 = 1"
    using cmath_round_of_nat [of 1] by simp
  show ?thesis
    by (simp add: short_inputs_example_eq computeLaw_def getControlInputDesiredOnTime_def
        getIndexIntegerBasedOnTime_def getStepTime_def vector_at_def r double_to_int_small)
qed

text \<open>
  Claim C1, amended. In every state with non-empty pose and input sequences and
  \<open>finished\<close> false in which the sample index \<open>i\<close> of \<open>current_time\<close> is not negative and
  below the number of stored inputs, \<open>computeLaw\<close> called with the pose \<open>(x, y, \<theta>)\<close>
  returns \<open>u_ref + du\<close> and caches the tracking errors, where \<open>u_ref = (v_ref, \<omega>_ref)\<close> and
  \<open>(x_ref, y_ref, \<theta>_ref)\<close> are the stored samples at \<open>i\<close>,
  \<open>e_x = x - x_ref\<close>, \<open>e_y = y - y_ref\<close>, \<open>e_theta = angleWithinPI (\<theta> - \<theta>_ref)\<close>,
  \<open>alpha = \<theta> + \<theta>_ref\<close>, \<open>psi = atan2 e_y e_x\<close>, \<open>e_xy = sqrt (e_x\<^sup>2 + e_y\<^sup>2)\<close>,
  \<open>du.v = - Kp \<cdot> e_xy \<cdot> cos (\<theta> - psi)\<close> and
  \<open>du.\<omega> = - Ktheta \<cdot> e_theta - v_ref \<cdot> sinc (e_theta / 2) \<cdot> sin (psi - alpha / 2)\<close>, with
  \<open>sinc 0 = 1\<close>.
\<close>

theorem C1_control_law:
  assumes "u_desired s \<noteq> []" and "pose_desired s \<noteq> []" and "\<not> finished s"
    and "getIndexIntegerBasedOnTime s (current_time s) = i"
    and "0 \<le> i" and "i < int (length (u_desired s))"
    and "u_desired s ! nat i = (v_ref, omega_ref)"
    and "pose_desired s ! nat i = (x_ref, y_ref, theta_ref)"
    and "ex = x - x_ref" and "ey = y - y_ref" and "eth = angleWithinPI (theta - theta_ref)"
    and "alpha = theta + theta_ref" and "psi = atan2 ey ex" and "exy = sqrt (ex\<^sup>2 + ey\<^sup>2)"
  shows "computeLaw s (x, y, theta) u_out =
      (Returned,
       (v_ref + (- Kp s * exy * cos (theta - psi)),
        omega_ref + (- Ktheta s * eth - v_ref * sinc (eth / 2) * sin (psi - alpha / 2))),
       s\<lparr>e_x := ex, e_y := ey, e_theta := eth\<rparr>)
    \<and> sinc 0 = 1"
proof -
  have ip: "i < int (length (pose_desired s))"
    using assms(4) getIndexIntegerBasedOnTime_less [of s "current_time s"] by simp
  have u: "getControlInputDesiredOnTime s (current_time s) = Inr (v_ref, omega_ref)"
    using assms(4-7) by (simp add: getControlInputDesiredOnTime_def vector_at_def)
  have p: "getPoseDesiredOnTime s (current_time s) = Inr (x_ref, y_ref, theta_ref)"
    using assms(4,5,8) ip by (simp add: getPoseDesiredOnTime_def vector_at_def)
  show ?thesis
    using assms(1-3) assms(9-14)
    by (simp add: computeLaw_def u p updateTrackingErrors_def Let_def sinc_def)
qed

text \<open>One unit ahead of the first reference pose, heading as the reference: the law
  brakes by \<open>Kp \<cdot> 1 = 2\<close> and does not turn.\<close>

theorem C1_control_law_witness:
  "computeLaw loaded_example (1, 0, 0) (7, 7) =
     (Returned, (- 1, 0), loaded_example\<lparr>e_x := 1, e_y := 0, e_theta := 0\<rparr>)"
proof -
  have r: "cmath_round 0 = 0"
    using cmath_round_of_nat [of 0] by simp
  have a: "u_desired loaded_example \<noteq> []" "pose_desired loaded_example \<noteq> []"
    "\<not> finished loaded_example"
    "getIndexIntegerBasedOnTime loaded_example (current_time loaded_example) = 0"
    "(0::int) \<le> 0" "0 < int (length (u_desired loaded_example))"
    "u_desired loaded_example ! nat 0 = (1, 0)"
    "pose_desired loaded_example ! nat 0 = (0, 0, 0)"
    by (simp_all add: loaded_example_eq getIndexIntegerBasedOnTime_def getStepTime_def r
        double_to_int_small)
  have b: "(1::real) = 1 - 0" "(0::real) = 0 - 0" "(0::real) = angleWithinPI (0 - 0)"
    "(0::real) = 0 + 0" "(0::real) = atan2 0 1" "(1::real) = sqrt (1\<^sup>2 + 0\<^sup>2)"
    by (simp_all add: angleWithinPI_0 atan2_0_1)
  show ?thesis
    using C1_control_law [OF a b, of "(7, 7)"]
    by (simp add: loaded_example_eq sinc_def)
qed

subsection \<open>Fewer inputs than poses (C10)\<close>

text \<open>
  Claim C10. The time-to-index conversion bounds the index by the number of poses only:
  its result is the converted quotient or \<open>n - 1\<close>, whichever is less, with no lower bound
  and no regard to the inputs; and the input lookup reads the input sequence at that very
  index. Therefore in every state whose input sequence is non-empty and shorter than the
  pose sequence there is a time \<open>t \<ge> 0\<close> at which, with \<open>finished\<close> false, the index lies
  outside the input sequence and \<open>computeLaw\<close> throws \<open>OUT_OF_RANGE\<close>, neither returning a
  sample nor throwing \<open>DESIRED_TRAJECTORY_INCOMPLETE\<close>, and leaves the output argument and
  the controller as they were. With a positive step time and an input count that fits an
  \<^verbatim>\<open>int\<close>, at \<open>t = dt \<cdot> (number of inputs)\<close> the index is exactly the number of inputs, one
  past the last input and still below the number of poses. (With a step time that is zero
  or negative the index of such a time is negative, which \<^verbatim>\<open>at\<close> reads as an unsigned
  index beyond every element.)
\<close>

theorem C10_short_input_sequence:
  assumes "u_desired s \<noteq> []" and "length (u_desired s) < length (pose_desired s)"
  shows "(\<forall>t. getIndexIntegerBasedOnTime s t =
            min (if getStepTime (RobotModel s) = 0 then INT_MIN
                 else double_to_int (cmath_round (t / getStepTime (RobotModel s))))
                (int (length (pose_desired s)) - 1)
          \<and> getControlInputDesiredOnTime s t =
            vector_at (u_desired s) (getIndexIntegerBasedOnTime s t))
    \<and> (\<exists>t\<ge>0.
          (getIndexIntegerBasedOnTime (s\<lparr>current_time := t, finished := False\<rparr>) t < 0
           \<or> int (length (u_desired s)) \<le>
               getIndexIntegerBasedOnTime (s\<lparr>current_time := t, finished := False\<rparr>) t)
        \<and> getControlInputDesiredOnTime (s\<lparr>current_time := t, finished := False\<rparr>) t
            = Inl OUT_OF_RANGE
        \<and> computeLaw (s\<lparr>current_time := t, finished := False\<rparr>) pose u_out =
            (Thrown OUT_OF_RANGE, u_out, s\<lparr>current_time := t, finished := False\<rparr>))
    \<and> (0 < getStepTime (RobotModel s) \<and> int (length (u_desired s)) \<le> INT_MAX \<longrightarrow>
         (\<exists>t\<ge>0.
            getIndexIntegerBasedOnTime (s\<lparr>current_time := t, finished := False\<rparr>) t =
              int (length (u_desired s))
          \<and> getControlInputDesiredOnTime (s\<lparr>current_time := t, finished := False\<rparr>) t
              = Inl OUT_OF_RANGE
          \<and> computeLaw (s\<lparr>current_time := t, finished := False\<rparr>) pose u_out =
              (Thrown OUT_OF_RANGE, u_out, s\<lparr>current_time := t, finished := False\<rparr>)))"
proof -
  let ?k = "length (u_desired s)"
  have thrown: "getControlInputDesiredOnTime (s\<lparr>current_time := t, finished := False\<rparr>) t
            = Inl OUT_OF_RANGE
        \<and> computeLaw (s\<lparr>current_time := t, finished := False\<rparr>) pose u_out =
            (Thrown OUT_OF_RANGE, u_out, s\<lparr>current_time := t, finished := False\<rparr>)"
    if "getIndexIntegerBasedOnTime (s\<lparr>current_time := t, finished := False\<rparr>) t < 0
        \<or> int ?k \<le> getIndexIntegerBasedOnTime (s\<lparr>current_time := t, finished := False\<rparr>) t"
    for t
  proof -
    let ?s = "s\<lparr>current_time := t, finished := False\<rparr>"
    have l: "getControlInputDesiredOnTime ?s t = Inl OUT_OF_RANGE"
      using that by (auto simp add: getControlInputDesiredOnTime_def vector_at_def)
    have "u_desired ?s \<noteq> []" "pose_desired ?s \<noteq> []" using assms by auto
    then have "computeLaw ?s pose u_out = (Thrown OUT_OF_RANGE, u_out, ?s)"
      using l by (simp add: computeLaw_def)
    then show ?thesis using l by simp
  qed
  have general: "\<forall>t. getIndexIntegerBasedOnTime s t =
            min (if getStepTime (RobotModel s) = 0 then INT_MIN
                 else double_to_int (cmath_round (t / getStepTime (RobotModel s))))
                (int (length (pose_desired s)) - 1)
          \<and> getControlInputDesiredOnTime s t =
            vector_at (u_desired s) (getIndexIntegerBasedOnTime s t)"
    by (simp add: getIndexIntegerBasedOnTime_def getControlInputDesiredOnTime_def Let_def min_def)
  let ?t = "\<bar>getStepTime (RobotModel s)\<bar> * real ?k"
  let ?s = "s\<lparr>current_time := ?t, finished := False\<rparr>"
  have "getIndexIntegerBasedOnTime ?s
           (\<bar>getStepTime (RobotModel ?s)\<bar> * real (length (u_desired ?s))) < 0
       \<or> int (length (u_desired ?s)) \<le>
         getIndexIntegerBasedOnTime ?s
           (\<bar>getStepTime (RobotModel ?s)\<bar> * real (length (u_desired ?s)))"
    by (rule index_outside_inputs) (use assms in simp_all)
  then have o: "getIndexIntegerBasedOnTime ?s ?t < 0 \<or> int ?k \<le> getIndexIntegerBasedOnTime ?s ?t"
    by simp
  have "0 \<le> ?t" by simp
  then have some: "\<exists>t\<ge>0.
          (getIndexIntegerBasedOnTime (s\<lparr>current_time := t, finished := False\<rparr>) t < 0
           \<or> int ?k \<le> getIndexIntegerBasedOnTime (s\<lparr>current_time := t, finished := False\<rparr>) t)
        \<and> getControlInputDesiredOnTime (s\<lparr>current_time := t, finished := False\<rparr>) t
            = Inl OUT_OF_RANGE
        \<and> computeLaw (s\<lparr>current_time := t, finished := False\<rparr>) pose u_out =
            (Thrown OUT_OF_RANGE, u_out, s\<lparr>current_time := t, finished := False\<rparr>)"
    using o thrown [of ?t] by blast
  have pos: "\<exists>t\<ge>0.
            getIndexIntegerBasedOnTime (s\<lparr>current_time := t, finished := False\<rparr>) t = int ?k
          \<and> getControlInputDesiredOnTime (s\<lparr>current_time := t, finished := False\<rparr>) t
              = Inl OUT_OF_RANGE
          \<and> computeLaw (s\<lparr>current_time := t, finished := False\<rparr>) pose u_out =
              (Thrown OUT_OF_RANGE, u_out, s\<lparr>current_time := t, finished := False\<rparr>)"
    if p: "0 < getStepTime (RobotModel s)" "int ?k \<le> INT_MAX"
  proof -
    let ?u = "getStepTime (RobotModel s) * real ?k"
    let ?r = "s\<lparr>current_time := ?u, finished := False\<rparr>"
    have "getIndexIntegerBasedOnTime ?r
           (getStepTime (RobotModel ?r) * real (length (u_desired ?r))) = int (length (u_desired ?r))"
      by (rule index_at_input_count) (use assms p in simp_all)
    then have i: "getIndexIntegerBasedOnTime ?r ?u = int ?k" by simp
    have "0 \<le> ?u" using p by simp
    then show ?thesis using i thrown [of ?u] by (intro exI [of _ ?u]) simp
  qed
  show ?thesis using general some pos by blast
qed

text \<open>One input and two poses with \<open>dt = 1\<close>: at \<open>t = 1\<close> the index is 1, the number of
  inputs.\<close>

theorem C10_short_input_sequence_witness:
  "\<exists>t\<ge>0.
       getIndexIntegerBasedOnTime (short_inputs_example\<lparr>current_time := t, finished := False\<rparr>) t = 1
     \<and> getControlInputDesiredOnTime (short_inputs_example\<lparr>current_time := t, finished := False\<rparr>) t
         = Inl OUT_OF_RANGE
     \<and> computeLaw (short_inputs_example\<lparr>current_time := t, finished := False\<rparr>) (0, 0, 0) (7, 7) =
         (Thrown OUT_OF_RANGE, (7, 7), short_inputs_example\<lparr>current_time := t, finished := False\<rparr>)"
proof -
  have a: "u_desired short_inputs_example \<noteq> []"
    "length (u_desired short_inputs_example) < length (pose_desired short_inputs_example)"
    by (simp_all add: short_inputs_example_eq)
  have b: "0 < getStepTime (RobotModel short_inputs_example)"
    "int (length (u_desired short_inputs_example)) \<le> INT_MAX"
    "int (length (u_desired short_inputs_example)) = 1"
    by (simp_all add: short_inputs_example_eq getStepTime_def INT_MAX_def)
  show ?thesis
    using C10_short_input_sequence [OF a, of "(0, 0, 0)" "(7, 7)"] b by simp
qed

end

